theory Spec2Isabelle
  imports Complex_Main
begin

section \<open>The content list of the story editor\<close>

text \<open>
  The editor (\<^verbatim>\<open>StoryEditor\<close>, in both source files) keeps the slides of a story in
  the state variable \<^verbatim>\<open>storyContent\<close>, an array of
  \<^verbatim>\<open>{ id: string, type: 'text' | 'image', content: string, order: number }\<close>.
  The field \<^verbatim>\<open>id\<close> is called \<open>item_id\<close> here, since \<open>id\<close> is the identity
  function of HOL.
\<close>

datatype content_type = Text | Image

record StoryContentItem =
  item_id :: string
  type :: content_type
  content :: string
  order :: nat

text \<open>The part of the editor's state that the content handlers read and write.\<close>

record editor =
  storyContent :: "StoryContentItem list"
  currentText :: string

subsection \<open>Library functions of the source language\<close>

text \<open>
  A string is the list of the bytes of its UTF-8 encoding (a string with a lone
  surrogate has none and is outside the model). \<^verbatim>\<open>String.prototype.trim\<close> removes
  white space and line terminators at both ends: the code points U+0009 to U+000D,
  U+0020, U+00A0, U+1680, U+2000 to U+200A, U+2028, U+2029, U+202F, U+205F, U+3000 and
  U+FEFF, listed here by their encodings. \<open>strip ws s\<close> removes from the front of \<open>s\<close>
  every leading occurrence of a sequence of \<open>ws\<close>; the end of the string is stripped
  on the reversed string with the reversed sequences.
\<close>

definition white_space :: "string list" where
  "white_space =
     [[CHR 0x09], [CHR 0x0A], [CHR 0x0B], [CHR 0x0C], [CHR 0x0D], [CHR 0x20],
      [CHR 0xC2, CHR 0xA0],
      [CHR 0xE1, CHR 0x9A, CHR 0x80],
      [CHR 0xE2, CHR 0x80, CHR 0x80], [CHR 0xE2, CHR 0x80, CHR 0x81],
      [CHR 0xE2, CHR 0x80, CHR 0x82], [CHR 0xE2, CHR 0x80, CHR 0x83],
      [CHR 0xE2, CHR 0x80, CHR 0x84], [CHR 0xE2, CHR 0x80, CHR 0x85],
      [CHR 0xE2, CHR 0x80, CHR 0x86], [CHR 0xE2, CHR 0x80, CHR 0x87],
      [CHR 0xE2, CHR 0x80, CHR 0x88], [CHR 0xE2, CHR 0x80, CHR 0x89],
      [CHR 0xE2, CHR 0x80, CHR 0x8A],
      [CHR 0xE2, CHR 0x80, CHR 0xA8], [CHR 0xE2, CHR 0x80, CHR 0xA9],
      [CHR 0xE2, CHR 0x80, CHR 0xAF],
      [CHR 0xE2, CHR 0x81, CHR 0x9F],
      [CHR 0xE3, CHR 0x80, CHR 0x80],
      [CHR 0xEF, CHR 0xBB, CHR 0xBF]]"

definition leading :: "string list \<Rightarrow> string \<Rightarrow> string option" where
  "leading ws s = List.find (\<lambda>w. w \<noteq> [] \<and> take (length w) s = w) ws"

function strip :: "string list \<Rightarrow> string \<Rightarrow> string" where
  "strip ws s = (case leading ws s of None \<Rightarrow> s | Some w \<Rightarrow> strip ws (drop (length w) s))"
  by pat_completeness auto

termination
proof (relation "measure (\<lambda>(ws, s). length s)")
  show "wf (measure (\<lambda>(ws, s). length s))" by simp
next
  fix ws :: "string list" and s w :: string
  assume "leading ws s = Some w"
  then have w: "w \<noteq> []" and t: "take (length w) s = w"
    by (auto simp: leading_def find_Some_iff)
  have "length (take (length w) s) \<le> length s" by simp
  with t have "length w \<le> length s" by simp
  with w have "length s - length w < length s" by (cases w) auto
  then show "((ws, drop (length w) s), (ws, s)) \<in> measure (\<lambda>(ws, s). length s)" by simp
qed

declare strip.simps [simp del]

definition trim :: "string \<Rightarrow> string" where
  "trim s = rev (strip (map rev white_space) (rev (strip white_space s)))"

text \<open>
  \<^verbatim>\<open>Date.now().toString()\<close>: the clock reading is a parameter \<open>now\<close> of the handlers,
  a number of milliseconds, printed in decimal.
\<close>

fun toString :: "nat \<Rightarrow> string" where
  "toString n =
     (if n < 10 then [char_of (48 + n)]
      else toString (n div 10) @ [char_of (48 + n mod 10)])"

declare toString.simps [simp del]

text \<open>\<^verbatim>\<open>xs.map((item, index) => f(item, index))\<close>\<close>

definition map_index :: "('a \<Rightarrow> nat \<Rightarrow> 'b) \<Rightarrow> 'a list \<Rightarrow> 'b list" where
  "map_index f xs = map (\<lambda>(index, item). f item index) (enumerate 0 xs)"

subsection \<open>The handlers\<close>

text \<open>
  \<^verbatim>\<open>handleAddText\<close> runs inside a click; the list it reads the length of
  (\<^verbatim>\<open>storyContent.length\<close>) and the list the updater
  \<^verbatim>\<open>prev => [...prev, newContent]\<close> is applied to are the same list, the one of the
  render the click happened in.
\<close>

definition handleAddText :: "nat \<Rightarrow> editor \<Rightarrow> editor" where
  "handleAddText now ed =
     (if trim (currentText ed) = [] then ed
      else
        let newContent =
          \<lparr>item_id = toString now, type = Text, content = trim (currentText ed),
           order = length (storyContent ed)\<rparr>
        in ed\<lparr>storyContent := storyContent ed @ [newContent], currentText := []\<rparr>)"

text \<open>
  \<^verbatim>\<open>handleAddImage\<close> returns at once when no file was chosen; otherwise it starts a
  \<^verbatim>\<open>FileReader\<close> whose \<^verbatim>\<open>onloadend\<close> callback runs later. The callback closes over
  the \<^verbatim>\<open>storyContent\<close> of the render in which the file was chosen (\<open>snapshot\<close>), and
  its updater is applied to the list of the moment the read ends (\<open>prev\<close>, the list of
  the editor the callback is run on). The two differ when another handler has run in
  between.
\<close>

datatype pending_read = Reading (snapshot: "StoryContentItem list")

definition handleAddImage :: "'file option \<Rightarrow> editor \<Rightarrow> pending_read option" where
  "handleAddImage file ed =
     (case file of None \<Rightarrow> None | Some f \<Rightarrow> Some (Reading (storyContent ed)))"

definition onloadend :: "nat \<Rightarrow> string \<Rightarrow> pending_read \<Rightarrow> editor \<Rightarrow> editor" where
  "onloadend now result reader ed =
     (let newContent =
        \<lparr>item_id = toString now, type = Image, content = result,
         order = length (snapshot reader)\<rparr>
      in ed\<lparr>storyContent := storyContent ed @ [newContent]\<rparr>)"

definition removeContentItem :: "string \<Rightarrow> editor \<Rightarrow> editor" where
  "removeContentItem i ed =
     ed\<lparr>storyContent :=
          map_index (\<lambda>item index. item\<lparr>order := index\<rparr>)
            (filter (\<lambda>item. item_id item \<noteq> i) (storyContent ed))\<rparr>"

text \<open>The invariant of the data model: every item's \<open>order\<close> is its index.\<close>

definition renumbered :: "StoryContentItem list \<Rightarrow> bool" where
  "renumbered xs \<longleftrightarrow> map order xs = [0..<length xs]"

text \<open>
  A list in which two items carry the order 0. The editor reaches it from the empty list:
  an image is chosen, a text is added while the image is still being read, and the read
  ends (lemma \<open>stale_snapshot_trace\<close> below).
\<close>

definition stale_list :: "StoryContentItem list" where
  "stale_list =
     [\<lparr>item_id = ''1'', type = Text, content = ''a'', order = 0\<rparr>,
      \<lparr>item_id = ''2'', type = Image, content = ''data:'', order = 0\<rparr>]"

section \<open>The scrolling preview\<close>

text \<open>
  \<^verbatim>\<open>StoryPreviewModal\<close> of the scrolling variant shows the slides in a container
  that scrolls vertically, one slide per window height. Its state is
  \<^verbatim>\<open>currentIndex\<close>, \<^verbatim>\<open>isTransitioning\<close>, \<^verbatim>\<open>touchStartY\<close> and \<^verbatim>\<open>touchEndY\<close>; the
  first two are also the whole state of the variant with arrow buttons, modelled further
  down.

  The list of slides, the prop \<^verbatim>\<open>storyContent\<close>, is the parameter \<open>slides\<close> of
  every handler.

  Numbers: an index is an integer, \<^verbatim>\<open>window.innerHeight\<close> a natural number of pixels,
  \<^verbatim>\<open>scrollTop\<close> and the \<^verbatim>\<open>clientY\<close> of a touch real numbers (the \<^verbatim>\<open>scrollTop\<close> of a
  container is never negative; the handlers are defined for every real number, as the
  code is). Arithmetic is exact: the
  rounding of IEEE doubles is not modelled. A handler whose new index would not be a
  finite number (\<^verbatim>\<open>NaN\<close>, \<^verbatim>\<open>-Infinity\<close>) returns \<open>None\<close>.
\<close>

record cursor =
  currentIndex :: int
  isTransitioning :: bool

record nav_state = cursor +
  touchStartY :: real
  touchEndY :: real

datatype behavior = Auto | Smooth

text \<open>
  What a handler does besides setting state: at most one call
  \<^verbatim>\<open>containerRef.current.scrollTo({ top, behavior })\<close>, \<^verbatim>\<open>e.preventDefault()\<close>, and
  \<^verbatim>\<open>onClose()\<close>.
\<close>

record effects =
  scrollTo :: "(int \<times> behavior) option"
  defaultPrevented :: bool
  closed :: bool

definition no_effects :: effects where
  "no_effects = \<lparr>scrollTo = None, defaultPrevented = False, closed = False\<rparr>"

definition scroll_to :: "int \<Rightarrow> behavior \<Rightarrow> effects" where
  "scroll_to offset b =
     \<lparr>scrollTo = Some (offset, b), defaultPrevented = False, closed = False\<rparr>"

text \<open>\<^verbatim>\<open>Math.round\<close> rounds to the nearest integer, a half towards \<open>+\<infinity>\<close>.\<close>

definition Math_round :: "real \<Rightarrow> int" where
  "Math_round x = \<lfloor>x + 1 / 2\<rfloor>"

text \<open>
  \<^verbatim>\<open>Math.round(scrollPosition / windowHeight)\<close>: with a window height of 0 the quotient
  is \<^verbatim>\<open>NaN\<close> or infinite.
\<close>

definition round_quotient :: "real \<Rightarrow> nat \<Rightarrow> int option" where
  "round_quotient scrollPosition windowHeight =
     (if windowHeight = 0 then None
      else Some (Math_round (scrollPosition / real windowHeight)))"

text \<open>
  The remainder \<^verbatim>\<open>a % b\<close> of JavaScript takes the sign of \<open>a\<close>, and is \<^verbatim>\<open>NaN\<close> when
  \<open>b\<close> is 0.
\<close>

definition remainder :: "int \<Rightarrow> int \<Rightarrow> int option" where
  "remainder a b = (if b = 0 then None else Some (sgn a * (\<bar>a\<bar> mod \<bar>b\<bar>)))"

text \<open>
  In the handlers, \<open>containerRef\<close> is \<^verbatim>\<open>containerRef.current\<close>: \<open>None\<close> while the
  container is not in the page, and otherwise its \<^verbatim>\<open>scrollTop\<close>.

  \<^verbatim>\<open>handleScroll\<close> computes \<^verbatim>\<open>currentActiveIndex\<close> before its three branches and uses
  it in the last one only, where the model computes it.
\<close>

definition handleScroll ::
  "StoryContentItem list \<Rightarrow> nat \<Rightarrow> real option \<Rightarrow> nav_state \<Rightarrow> (nav_state \<times> effects) option"
where
  "handleScroll slides windowHeight containerRef st =
     (case containerRef of
        None \<Rightarrow> Some (st, no_effects)
      | Some scrollPosition \<Rightarrow>
          if scrollPosition \<ge> (real (length slides) - 1 / 2) * real windowHeight then
            Some (st\<lparr>currentIndex := 0\<rparr>, scroll_to 0 Auto)
          else if scrollPosition \<le> 0 \<and> currentIndex st = 0 then
            let newIndex = int (length slides) - 1
            in Some (st\<lparr>currentIndex := newIndex\<rparr>, scroll_to (newIndex * int windowHeight) Auto)
          else
            (case round_quotient scrollPosition windowHeight of
               None \<Rightarrow> None
             | Some currentActiveIndex \<Rightarrow>
                 if currentActiveIndex \<noteq> currentIndex st then
                   Some (st\<lparr>currentIndex := currentActiveIndex\<rparr>, no_effects)
                 else Some (st, no_effects)))"

definition handleTouchStart :: "real \<Rightarrow> nav_state \<Rightarrow> nav_state \<times> effects" where
  "handleTouchStart clientY st = (st\<lparr>touchStartY := clientY\<rparr>, no_effects)"

definition handleTouchMove :: "real \<Rightarrow> nav_state \<Rightarrow> nav_state \<times> effects" where
  "handleTouchMove clientY st =
     (st\<lparr>touchEndY := clientY\<rparr>, no_effects\<lparr>defaultPrevented := True\<rparr>)"

text \<open>
  The guard of \<^verbatim>\<open>handleTouchEnd\<close> is
  \<^verbatim>\<open>!touchStartY || touchEndY === null || !containerRef.current\<close>: \<^verbatim>\<open>!touchStartY\<close> holds
  when \<^verbatim>\<open>touchStartY\<close> is 0, and \<^verbatim>\<open>touchEndY\<close>, a number, is never \<^verbatim>\<open>null\<close>.
\<close>

definition handleTouchEnd ::
  "StoryContentItem list \<Rightarrow> nat \<Rightarrow> real option \<Rightarrow> nav_state \<Rightarrow> (nav_state \<times> effects) option"
where
  "handleTouchEnd slides windowHeight containerRef st =
     (if touchStartY st = 0 \<or> containerRef = None then Some (st, no_effects)
      else
        let diff = touchStartY st - touchEndY st;
            threshold = 30
        in
          if \<bar>diff\<bar> > threshold then
            if diff > 0 then
              (case remainder (currentIndex st + 1) (int (length slides)) of
                 None \<Rightarrow> None
               | Some nextIndex \<Rightarrow>
                   Some (st\<lparr>currentIndex := nextIndex, touchStartY := 0, touchEndY := 0\<rparr>,
                         scroll_to (nextIndex * int windowHeight) Smooth))
            else
              (case remainder (currentIndex st - 1 + int (length slides))
                      (int (length slides)) of
                 None \<Rightarrow> None
               | Some prevIndex \<Rightarrow>
                   Some (st\<lparr>currentIndex := prevIndex, touchStartY := 0, touchEndY := 0\<rparr>,
                         scroll_to (prevIndex * int windowHeight) Smooth))
          else
            Some (st\<lparr>touchStartY := 0, touchEndY := 0\<rparr>,
                  scroll_to (currentIndex st * int windowHeight) Smooth))"

text \<open>
  \<^verbatim>\<open>handleKeyDown\<close> calls no state setter: for the arrow keys and the space bar it only
  asks the container to scroll to the neighbouring slide, clamped to the first and the
  last one.
\<close>

definition handleKeyDown ::
  "StoryContentItem list \<Rightarrow> nat \<Rightarrow> real option \<Rightarrow> string \<Rightarrow> nav_state \<Rightarrow> nav_state \<times> effects"
where
  "handleKeyDown slides windowHeight containerRef key st =
     (if containerRef = None then (st, no_effects)
      else if key = ''ArrowDown'' \<or> key = '' '' then
        let nextIndex = min (currentIndex st + 1) (int (length slides) - 1)
        in (st, (scroll_to (nextIndex * int windowHeight) Smooth)\<lparr>defaultPrevented := True\<rparr>)
      else if key = ''ArrowUp'' then
        let prevIndex = max (currentIndex st - 1) 0
        in (st, (scroll_to (prevIndex * int windowHeight) Smooth)\<lparr>defaultPrevented := True\<rparr>)
      else if key = ''Escape'' then (st, no_effects\<lparr>closed := True\<rparr>)
      else (st, no_effects))"

text \<open>
  What the component renders. It returns \<^verbatim>\<open>null\<close> when \<^verbatim>\<open>storyContent.length === 0\<close>
  and when \<^verbatim>\<open>storyContent[currentIndex]\<close> is undefined; only otherwise are the container
  and the touch and scroll handlers on it part of the page. The key handler is installed
  on the window by an effect, whatever is rendered.
\<close>

definition mounted :: "StoryContentItem list \<Rightarrow> nav_state \<Rightarrow> bool" where
  "mounted slides st \<longleftrightarrow>
     length slides \<noteq> 0 \<and> 0 \<le> currentIndex st
     \<and> nat (currentIndex st) < length slides"

datatype event = Scroll | TouchStart real | TouchMove real | TouchEnd | KeyDown string

definition dispatch ::
  "StoryContentItem list \<Rightarrow> nat \<Rightarrow> real \<Rightarrow> event \<Rightarrow> nav_state \<Rightarrow> (nav_state \<times> effects) option"
where
  "dispatch slides windowHeight scrollTop ev st =
     (let containerRef = (if mounted slides st then Some scrollTop else None)
      in case ev of
           KeyDown key \<Rightarrow> Some (handleKeyDown slides windowHeight containerRef key st)
         | Scroll \<Rightarrow>
             if mounted slides st
             then handleScroll slides windowHeight containerRef st
             else Some (st, no_effects)
         | TouchStart clientY \<Rightarrow>
             if mounted slides st then Some (handleTouchStart clientY st)
             else Some (st, no_effects)
         | TouchMove clientY \<Rightarrow>
             if mounted slides st then Some (handleTouchMove clientY st)
             else Some (st, no_effects)
         | TouchEnd \<Rightarrow>
             if mounted slides st
             then handleTouchEnd slides windowHeight containerRef st
             else Some (st, no_effects))"

section \<open>The preview with arrow buttons\<close>

text \<open>
  \<^verbatim>\<open>StoryPreviewModal\<close> of \<^verbatim>\<open>story-editor.backup.tsx\<close> shows one slide at a time, with
  an arrow button to each side and one indicator button per slide. The arrows start a
  timer with \<^verbatim>\<open>setTimeout(..., 200)\<close>; the state carries a clock and the timers not yet
  run, each with the time it is due and its callback.
\<close>

datatype timer_callback = Forward | Backward

record arrows_state = cursor +
  clock :: nat
  timers :: "(nat \<times> timer_callback) list"

definition nextSlide :: "StoryContentItem list \<Rightarrow> arrows_state \<Rightarrow> arrows_state" where
  "nextSlide slides s =
     (if currentIndex s < int (length slides) - 1
      then s\<lparr>isTransitioning := True, timers := timers s @ [(clock s + 200, Forward)]\<rparr>
      else s)"

definition prevSlide :: "StoryContentItem list \<Rightarrow> arrows_state \<Rightarrow> arrows_state" where
  "prevSlide slides s =
     (if currentIndex s > 0
      then s\<lparr>isTransitioning := True, timers := timers s @ [(clock s + 200, Backward)]\<rparr>
      else s)"


text \<open>The indicator of slide \<open>index\<close>: \<^verbatim>\<open>onClick={() => setCurrentIndex(index)}\<close>.\<close>

definition goToSlide :: "nat \<Rightarrow> arrows_state \<Rightarrow> arrows_state" where
  "goToSlide index s = s\<lparr>currentIndex := int index\<rparr>"


text \<open>
  A click reaches a handler only when its button is rendered. The component returns
  \<^verbatim>\<open>null\<close> for an empty list (and reading \<^verbatim>\<open>currentItem.type\<close> throws for an index
  outside the list, so nothing is shown then either); the left arrow is rendered when
  \<^verbatim>\<open>currentIndex > 0\<close>, the right arrow when
  \<^verbatim>\<open>currentIndex < storyContent.length - 1\<close>, and there is one indicator per slide.
\<close>

datatype click = PrevArrow | NextArrow | Indicator nat

definition click_on :: "StoryContentItem list \<Rightarrow> click \<Rightarrow> arrows_state \<Rightarrow> arrows_state" where
  "click_on slides c s =
     (if length slides = 0 \<or> currentIndex s < 0
         \<or> nat (currentIndex s) \<ge> length slides then s
      else
        case c of
          PrevArrow \<Rightarrow> if currentIndex s > 0 then prevSlide slides s else s
        | NextArrow \<Rightarrow>
            if currentIndex s < int (length slides) - 1 then nextSlide slides s
            else s
        | Indicator index \<Rightarrow> if index < length slides then goToSlide index s else s)"

text \<open>The three slides of the specification's scenario.\<close>

definition three_slides :: "StoryContentItem list" where
  "three_slides =
     [\<lparr>item_id = ''1'', type = Text, content = ''a'', order = 0\<rparr>,
      \<lparr>item_id = ''2'', type = Image, content = ''u1'', order = 1\<rparr>,
      \<lparr>item_id = ''3'', type = Text, content = ''b'', order = 2\<rparr>]"

text \<open>
  States of the two previews over \<open>three_slides\<close>: the scrolling preview on the last
  slide after a touch that moved up by 50, on the first slide after a touch that moved
  down by 50, and the preview with arrows at rest on the first slide.
\<close>

definition at_last :: nav_state where
  "at_last = \<lparr>currentIndex = 2, isTransitioning = False, touchStartY = 100, touchEndY = 50\<rparr>"

definition at_first :: nav_state where
  "at_first = \<lparr>currentIndex = 0, isTransitioning = False, touchStartY = 100, touchEndY = 150\<rparr>"

definition idle :: arrows_state where
  "idle = \<lparr>currentIndex = 0, isTransitioning = False, clock = 5, timers = []\<rparr>"

section \<open>Facts about the content list\<close>

lemma length_map_index [simp]: "length (map_index f xs) = length xs"
  by (simp add: map_index_def)

lemma nth_map_index [simp]: "i < length xs \<Longrightarrow> map_index f xs ! i = f (xs ! i) i"
  by (simp add: map_index_def nth_enumerate_eq)

lemma renumbered_iff: "renumbered xs \<longleftrightarrow> (\<forall>i<length xs. order (xs ! i) = i)"
  unfolding renumbered_def by (subst list_eq_iff_nth_eq) simp

lemma renumbered_snoc:
  "renumbered xs \<Longrightarrow> order x = length xs \<Longrightarrow> renumbered (xs @ [x])"
  by (simp add: renumbered_def)

lemma renumbered_map_index: "renumbered (map_index (\<lambda>item index. item\<lparr>order := index\<rparr>) xs)"
  by (simp add: renumbered_iff)

lemma map_index_renumbered:
  "renumbered xs \<Longrightarrow> map_index (\<lambda>item index. item\<lparr>order := index\<rparr>) xs = xs"
  by (subst list_eq_iff_nth_eq) (simp add: renumbered_iff)

lemma map_index_fields:
  "map (\<lambda>x. (item_id x, type x, content x))
     (map_index (\<lambda>item index. item\<lparr>order := index\<rparr>) xs)
   = map (\<lambda>x. (item_id x, type x, content x)) xs"
  by (subst list_eq_iff_nth_eq) simp

lemma take_map_index_renumbered:
  "renumbered (take p xs) \<Longrightarrow>
   take p (map_index (\<lambda>item index. item\<lparr>order := index\<rparr>) xs) = take p xs"
  by (subst list_eq_iff_nth_eq) (simp add: renumbered_iff)

lemma take_filter_takeWhile: "take (length (takeWhile P xs)) (filter P xs) = takeWhile P xs"
  by (induction xs) simp_all

lemma toString_1: "toString (Suc 0) = ''1''"
  by code_simp

lemma toString_2: "toString 2 = ''2''"
  by code_simp

lemma trim_a: "trim ''a'' = ''a''"
  by code_simp

text \<open>
  How the editor reaches \<open>stale_list\<close>: a file is chosen while the list is empty, the
  text \<open>a\<close> is added at time 1, and the read ends at time 2. The image gets the order 0,
  the length of the list at the time the file was chosen.
\<close>

lemma stale_snapshot_trace:
  "handleAddImage (Some f) \<lparr>storyContent = [], currentText = ''a''\<rparr> = Some (Reading [])
   \<and> storyContent
        (onloadend 2 ''data:'' (Reading [])
          (handleAddText 1 \<lparr>storyContent = [], currentText = ''a''\<rparr>)) = stale_list"
  by (simp add: handleAddImage_def onloadend_def handleAddText_def trim_a
      stale_list_def toString_1 toString_2)

text \<open>
  What the handlers do for the invariant: \<^verbatim>\<open>removeContentItem\<close> establishes it on
  every list, and \<^verbatim>\<open>handleAddText\<close> keeps it.
\<close>

lemma removeContentItem_renumbered: "renumbered (storyContent (removeContentItem i ed))"
  by (simp add: removeContentItem_def renumbered_map_index)

lemma handleAddText_renumbered:
  "renumbered (storyContent ed) \<Longrightarrow> renumbered (storyContent (handleAddText now ed))"
  by (simp add: handleAddText_def Let_def renumbered_snoc)

text \<open>
  Claim C1 says that after any append of a text or an image every item's order is its
  index. The code breaks this for an image, from a list that satisfies the invariant:
  the callback of the read takes the order of the new item from the list of the render
  in which the file was chosen and appends the item to the list of the moment the read
  ends. A file is chosen while the list is empty, the text \<open>a\<close> is added at time 1 (the
  list then has one item, of order 0), and the read ends at time 2: the image is at
  index 1 with the order 0.
\<close>

theorem image_append_stale_order:
  "renumbered (storyContent \<lparr>storyContent = [], currentText = ''a''\<rparr>)
   \<and> handleAddImage (Some ()) \<lparr>storyContent = [], currentText = ''a''\<rparr> = Some (Reading [])
   \<and> storyContent (handleAddText 1 \<lparr>storyContent = [], currentText = ''a''\<rparr>)
       = [\<lparr>item_id = ''1'', type = Text, content = ''a'', order = 0\<rparr>]
   \<and> renumbered (storyContent (handleAddText 1 \<lparr>storyContent = [], currentText = ''a''\<rparr>))
   \<and> storyContent
        (onloadend 2 ''data:'' (Reading [])
          (handleAddText 1 \<lparr>storyContent = [], currentText = ''a''\<rparr>))
       = [\<lparr>item_id = ''1'', type = Text, content = ''a'', order = 0\<rparr>,
          \<lparr>item_id = ''2'', type = Image, content = ''data:'', order = 0\<rparr>]
   \<and> order (storyContent
        (onloadend 2 ''data:'' (Reading [])
          (handleAddText 1 \<lparr>storyContent = [], currentText = ''a''\<rparr>)) ! 1) = 0
   \<and> \<not> renumbered (storyContent
        (onloadend 2 ''data:'' (Reading [])
          (handleAddText 1 \<lparr>storyContent = [], currentText = ''a''\<rparr>)))"
  by (simp add: handleAddImage_def onloadend_def handleAddText_def trim_a
      toString_1 toString_2 renumbered_def)

text \<open>
  Claim C8, as the code has it. On a list in which every item's order is its index,
  removing an id that no item has returns the editor unchanged.
\<close>

theorem remove_absent_id:
  "renumbered (storyContent ed) \<Longrightarrow> i \<notin> item_id ` set (storyContent ed) \<Longrightarrow>
   removeContentItem i ed = ed"
proof -
  assume inv: "renumbered (storyContent ed)" and absent: "i \<notin> item_id ` set (storyContent ed)"
  have "filter (\<lambda>item. item_id item \<noteq> i) (storyContent ed) = storyContent ed"
    using absent by (auto simp: filter_id_conv)
  then show ?thesis
    using inv by (simp add: removeContentItem_def map_index_renumbered)
qed

theorem remove_absent_id_witness:
  "renumbered (storyContent \<lparr>storyContent = three_slides, currentText = []\<rparr>)
   \<and> ''9'' \<notin> item_id ` set (storyContent \<lparr>storyContent = three_slides, currentText = []\<rparr>)
   \<and> removeContentItem ''9'' \<lparr>storyContent = three_slides, currentText = []\<rparr>
       = \<lparr>storyContent = three_slides, currentText = []\<rparr>"
proof -
  have inv: "renumbered (storyContent \<lparr>storyContent = three_slides, currentText = []\<rparr>)"
    by (simp add: renumbered_def three_slides_def upt_rec)
  have absent:
    "''9'' \<notin> item_id ` set (storyContent \<lparr>storyContent = three_slides, currentText = []\<rparr>)"
    by (simp add: three_slides_def)
  show ?thesis
    using inv absent remove_absent_id [OF inv absent] by simp
qed

text \<open>
  Claim C8 as stated fails on a list that does not satisfy the invariant: no item of
  \<open>stale_list\<close> has the id \<open>9\<close>, and removing that id renumbers the second item.
\<close>

theorem remove_absent_id_counterexample:
  "''9'' \<notin> item_id ` set stale_list
   \<and> removeContentItem ''9'' \<lparr>storyContent = stale_list, currentText = []\<rparr>
       \<noteq> \<lparr>storyContent = stale_list, currentText = []\<rparr>
   \<and> order (storyContent
        (removeContentItem ''9'' \<lparr>storyContent = stale_list, currentText = []\<rparr>) ! 1) = 1"
  by (simp add: removeContentItem_def stale_list_def map_index_def enumerate_eq_zip upt_rec)

text \<open>
  Claim C10, as the code has it. For every list and every id: the remaining items are
  the items with another id, in their order, with \<open>item_id\<close>, \<open>type\<close> and \<open>content\<close> as
  before; the order of each is its new index; nothing else of the editor changes; and
  the items before the first removed one are left as they were when the order of each
  of them was its index.
\<close>

theorem remove_frame:
  "map (\<lambda>x. (item_id x, type x, content x)) (storyContent (removeContentItem i ed))
     = filter (\<lambda>t. fst t \<noteq> i) (map (\<lambda>x. (item_id x, type x, content x)) (storyContent ed))
   \<and> map order (storyContent (removeContentItem i ed))
     = [0..<length (storyContent (removeContentItem i ed))]
   \<and> currentText (removeContentItem i ed) = currentText ed
   \<and> (renumbered (takeWhile (\<lambda>item. item_id item \<noteq> i) (storyContent ed)) \<longrightarrow>
        take (length (takeWhile (\<lambda>item. item_id item \<noteq> i) (storyContent ed)))
          (storyContent (removeContentItem i ed))
        = takeWhile (\<lambda>item. item_id item \<noteq> i) (storyContent ed))"
proof -
  let ?P = "\<lambda>item. item_id item \<noteq> i"
  let ?xs = "storyContent ed"
  let ?p = "length (takeWhile ?P ?xs)"
  have fields:
    "map (\<lambda>x. (item_id x, type x, content x)) (storyContent (removeContentItem i ed))
     = filter (\<lambda>t. fst t \<noteq> i) (map (\<lambda>x. (item_id x, type x, content x)) ?xs)"
    by (simp add: removeContentItem_def map_index_fields filter_map comp_def)
  have orders:
    "map order (storyContent (removeContentItem i ed))
     = [0..<length (storyContent (removeContentItem i ed))]"
    using renumbered_map_index [of "filter ?P ?xs"]
    by (simp add: removeContentItem_def renumbered_def)
  have before: "take ?p (storyContent (removeContentItem i ed)) = takeWhile ?P ?xs"
    if "renumbered (takeWhile ?P ?xs)"
  proof -
    have "renumbered (take ?p (filter ?P ?xs))"
      using that by (simp add: take_filter_takeWhile)
    then have
      "take ?p (map_index (\<lambda>item index. item\<lparr>order := index\<rparr>) (filter ?P ?xs))
       = take ?p (filter ?P ?xs)"
      by (rule take_map_index_renumbered)
    then show ?thesis
      by (simp add: removeContentItem_def take_filter_takeWhile)
  qed
  show ?thesis
    using fields orders before by (simp add: removeContentItem_def)
qed

theorem remove_frame_witness:
  "renumbered (takeWhile (\<lambda>item. item_id item \<noteq> ''2'') three_slides)
   \<and> storyContent (removeContentItem ''2'' \<lparr>storyContent = three_slides, currentText = ''c''\<rparr>)
       = [\<lparr>item_id = ''1'', type = Text, content = ''a'', order = 0\<rparr>,
          \<lparr>item_id = ''3'', type = Text, content = ''b'', order = 1\<rparr>]
   \<and> take 1 (storyContent
        (removeContentItem ''2'' \<lparr>storyContent = three_slides, currentText = ''c''\<rparr>))
       = take 1 three_slides"
  using remove_frame [of "''2''" "\<lparr>storyContent = three_slides, currentText = ''c''\<rparr>"]
  by (simp add: three_slides_def renumbered_def removeContentItem_def map_index_def
      enumerate_eq_zip upt_rec)

text \<open>
  Claim C10 as stated fails on a list that does not satisfy the invariant. The item
  with the id \<open>3\<close> is at index 2; removing it rewrites the order of the item at index 1,
  which is before it, from 0 to 1.
\<close>

theorem remove_frame_counterexample:
  "item_id ((stale_list @ [\<lparr>item_id = ''3'', type = Text, content = ''b'', order = 2\<rparr>]) ! 2)
     = ''3''
   \<and> order ((stale_list @ [\<lparr>item_id = ''3'', type = Text, content = ''b'', order = 2\<rparr>]) ! 1)
     = 0
   \<and> order (storyContent (removeContentItem ''3''
        \<lparr>storyContent =
           stale_list @ [\<lparr>item_id = ''3'', type = Text, content = ''b'', order = 2\<rparr>],
         currentText = []\<rparr>) ! 1) = 1"
  by (simp add: removeContentItem_def stale_list_def map_index_def enumerate_eq_zip upt_rec)

section \<open>Facts about the scrolling preview\<close>


lemma remainder_prev:
  assumes "0 \<le> a" "a < n"
  shows "remainder (a - 1 + n) n = Some (if a = 0 then n - 1 else a - 1)"
proof (cases "a = 0")
  case True
  with assms show ?thesis by (simp add: remainder_def sgn_if zmod_minus1)
next
  case False
  with assms have "(a - 1 + n) mod n = a - 1" by simp
  with False assms show ?thesis by (simp add: remainder_def sgn_if)
qed





text \<open>
  Claim C3. Over a list of at least one slide, with the container in the page and a
  touch that started at a coordinate other than 0: a touch that moved up by more than
  30 on the last slide sets the index to 0, and a touch that moved down by more than
  30 on the first slide sets it to \<open>n - 1\<close>; both ask for a smooth scroll to the new
  slide and reset the two coordinates.
\<close>

theorem swipe_wraps:
  assumes "1 \<le> length slides" "touchStartY st \<noteq> 0"
  shows
    "(currentIndex st = int (length slides) - 1 \<and> touchStartY st - touchEndY st > 30 \<longrightarrow>
        handleTouchEnd slides windowHeight (Some scrollTop) st
        = Some (st\<lparr>currentIndex := 0, touchStartY := 0, touchEndY := 0\<rparr>, scroll_to 0 Smooth))
     \<and> (currentIndex st = 0 \<and> touchStartY st - touchEndY st < - 30 \<longrightarrow>
        handleTouchEnd slides windowHeight (Some scrollTop) st
        = Some (st\<lparr>currentIndex := int (length slides) - 1, touchStartY := 0, touchEndY := 0\<rparr>,
                scroll_to ((int (length slides) - 1) * int windowHeight) Smooth))"
proof -
  from assms have ne: "slides \<noteq> []" by auto
  have up: "remainder (int (length slides) - 1 + 1) (int (length slides)) = Some 0"
    using ne by (simp add: remainder_def)
  have down: "remainder (0 - 1 + int (length slides)) (int (length slides))
    = Some (int (length slides) - 1)"
    using ne remainder_prev [of 0 "int (length slides)"] by simp
  show ?thesis
    using assms up down by (auto simp add: handleTouchEnd_def Let_def)
qed

text \<open>
  The scenario of the specification: a touch that moved up by 50 on the last of three
  slides gives the index 0, and one that moved down by 50 on the first gives the index 2.
\<close>

theorem swipe_wraps_witness:
  "1 \<le> length three_slides \<and> touchStartY at_last \<noteq> 0 \<and> touchStartY at_first \<noteq> 0
   \<and> currentIndex at_last = int (length three_slides) - 1
   \<and> touchStartY at_last - touchEndY at_last = 50
   \<and> handleTouchEnd three_slides 800 (Some 1600) at_last
       = Some (\<lparr>currentIndex = 0, isTransitioning = False, touchStartY = 0, touchEndY = 0\<rparr>,
               scroll_to 0 Smooth)
   \<and> currentIndex at_first = 0
   \<and> touchStartY at_first - touchEndY at_first = - 50
   \<and> handleTouchEnd three_slides 800 (Some 0) at_first
       = Some (\<lparr>currentIndex = 2, isTransitioning = False, touchStartY = 0, touchEndY = 0\<rparr>,
               scroll_to 1600 Smooth)"
proof -
  have h: "1 \<le> length three_slides" "touchStartY at_last \<noteq> 0" "touchStartY at_first \<noteq> 0"
    by (simp_all add: three_slides_def at_last_def at_first_def)
  show ?thesis
    using h
      swipe_wraps [OF h(1) h(2), where windowHeight = 800 and scrollTop = 1600]
      swipe_wraps [OF h(1) h(3), where windowHeight = 800 and scrollTop = 0]
    by (simp add: three_slides_def at_last_def at_first_def)
qed

text \<open>
  Claim C4. Over a list of at least one slide: on the last slide the keys
  \<^verbatim>\<open>ArrowDown\<close> and space, and on the first slide the key \<^verbatim>\<open>ArrowUp\<close>, leave the state
  as it is and ask for a scroll to the slide already shown; in the preview with arrows,
  \<^verbatim>\<open>nextSlide\<close> on the last slide and \<^verbatim>\<open>prevSlide\<close> on the first change nothing.
\<close>

theorem clamped_step_at_boundary:
  assumes "1 \<le> length slides"
  shows
    "(currentIndex st = int (length slides) - 1 \<and> (key = ''ArrowDown'' \<or> key = '' '') \<longrightarrow>
        handleKeyDown slides windowHeight (Some scrollTop) key st
        = (st, (scroll_to (currentIndex st * int windowHeight) Smooth)
                 \<lparr>defaultPrevented := True\<rparr>))
     \<and> (currentIndex st = 0 \<longrightarrow>
        handleKeyDown slides windowHeight (Some scrollTop) ''ArrowUp'' st
        = (st, (scroll_to (currentIndex st * int windowHeight) Smooth)
                 \<lparr>defaultPrevented := True\<rparr>))
     \<and> (currentIndex s = int (length slides) - 1 \<longrightarrow> nextSlide slides s = s)
     \<and> (currentIndex s = 0 \<longrightarrow> prevSlide slides s = s)"
  by (auto simp add: handleKeyDown_def nextSlide_def prevSlide_def Let_def)

theorem clamped_step_at_boundary_witness:
  "1 \<le> length three_slides
   \<and> currentIndex at_last = int (length three_slides) - 1
   \<and> handleKeyDown three_slides 800 (Some 1600) ''ArrowDown'' at_last
       = (at_last, (scroll_to 1600 Smooth)\<lparr>defaultPrevented := True\<rparr>)
   \<and> handleKeyDown three_slides 800 (Some 1600) '' '' at_last
       = (at_last, (scroll_to 1600 Smooth)\<lparr>defaultPrevented := True\<rparr>)
   \<and> currentIndex at_first = 0
   \<and> handleKeyDown three_slides 800 (Some 0) ''ArrowUp'' at_first
       = (at_first, (scroll_to 0 Smooth)\<lparr>defaultPrevented := True\<rparr>)
   \<and> currentIndex (idle\<lparr>currentIndex := 2\<rparr>) = int (length three_slides) - 1
   \<and> nextSlide three_slides (idle\<lparr>currentIndex := 2\<rparr>) = idle\<lparr>currentIndex := 2\<rparr>
   \<and> currentIndex idle = 0
   \<and> prevSlide three_slides idle = idle"
proof -
  have h: "1 \<le> length three_slides" by (simp add: three_slides_def)
  show ?thesis
    using h
      clamped_step_at_boundary [OF h, where st = at_last and key = "''ArrowDown''"
        and windowHeight = 800 and scrollTop = 1600 and s = "idle\<lparr>currentIndex := 2\<rparr>"]
      clamped_step_at_boundary [OF h, where st = at_last and key = "'' ''"
        and windowHeight = 800 and scrollTop = 1600 and s = "idle\<lparr>currentIndex := 2\<rparr>"]
      clamped_step_at_boundary [OF h, where st = at_first and key = "''ArrowUp''"
        and windowHeight = 800 and scrollTop = 0 and s = idle]
    by (simp add: three_slides_def at_last_def at_first_def idle_def)
qed

text \<open>
  Claim C5. Over a list of at least one slide, with the container in the page: a scroll
  event at an offset of at least \<open>(n - 1/2)\<close> window heights sets the index to 0 and asks
  for a scroll to the offset 0; and, the window height being positive, a scroll event
  at an offset of at most 0 while the index is 0 sets the index to \<open>n - 1\<close> and asks for
  a scroll to that slide. (With a window height of 0 the offset 0 is both at the
  midpoint and at 0, and the first rule is the one the handler tests first.)
\<close>

theorem scroll_wraps:
  assumes "1 \<le> length slides"
  shows
    "(scrollPosition \<ge> (real (length slides) - 1 / 2) * real windowHeight \<longrightarrow>
        handleScroll slides windowHeight (Some scrollPosition) st
        = Some (st\<lparr>currentIndex := 0\<rparr>, scroll_to 0 Auto))
     \<and> (0 < windowHeight \<and> scrollPosition \<le> 0 \<and> currentIndex st = 0 \<longrightarrow>
        handleScroll slides windowHeight (Some scrollPosition) st
        = Some (st\<lparr>currentIndex := int (length slides) - 1\<rparr>,
                scroll_to ((int (length slides) - 1) * int windowHeight) Auto))"
proof -
  have before: "\<not> scrollPosition \<ge> (real (length slides) - 1 / 2) * real windowHeight"
    if "0 < windowHeight" "scrollPosition \<le> 0"
  proof -
    from assms have "0 < real (length slides) - 1 / 2" by simp
    with that have "0 < (real (length slides) - 1 / 2) * real windowHeight" by simp
    with that show ?thesis by simp
  qed
  show ?thesis
    using before by (auto simp add: handleScroll_def Let_def)
qed

theorem scroll_wraps_witness:
  "1 \<le> length three_slides
   \<and> (2000::real) \<ge> (real (length three_slides) - 1 / 2) * real (800::nat)
   \<and> handleScroll three_slides 800 (Some 2000) at_last
       = Some (at_last\<lparr>currentIndex := 0\<rparr>, scroll_to 0 Auto)
   \<and> 0 < (800::nat) \<and> (0::real) \<le> 0 \<and> currentIndex at_first = 0
   \<and> handleScroll three_slides 800 (Some 0) at_first
       = Some (at_first\<lparr>currentIndex := 2\<rparr>, scroll_to 1600 Auto)"
proof -
  have h: "1 \<le> length three_slides" by (simp add: three_slides_def)
  show ?thesis
    using h
      scroll_wraps [OF h, where scrollPosition = 2000 and windowHeight = 800 and st = at_last]
      scroll_wraps [OF h, where scrollPosition = 0 and windowHeight = 800 and st = at_first]
    by (simp add: three_slides_def at_first_def)
qed

text \<open>
  When \<^verbatim>\<open>touchStartY\<close> and \<^verbatim>\<open>touchEndY\<close> differ by at most 30, the end of the touch
  returns a state with the index it had before, over any list and whether or not the
  container is in the page. So a touch that starts at \<open>y0\<close> and moves to \<open>y1\<close>, with the
  two at most 30 apart, leaves the index as it is.
\<close>

lemma tracked_difference_keeps_index:
  "(\<bar>touchStartY st - touchEndY st\<bar> \<le> 30 \<longrightarrow>
      (\<exists>st' e. handleTouchEnd slides windowHeight containerRef st = Some (st', e)
         \<and> currentIndex st' = currentIndex st))
   \<and> (\<bar>y0 - y1\<bar> \<le> 30 \<longrightarrow>
      (\<exists>st' e. handleTouchEnd slides windowHeight containerRef
                  (fst (handleTouchMove y1 (fst (handleTouchStart y0 st)))) = Some (st', e)
         \<and> currentIndex st' = currentIndex st))"
  by (simp add: handleTouchEnd_def handleTouchStart_def handleTouchMove_def Let_def)

text \<open>
  Claim C6 says that a touch whose start and end coordinates differ by at most 30 never
  changes the index. The code breaks this for a touch that does not move.
  \<^verbatim>\<open>touchEndY\<close> is written by \<^verbatim>\<open>handleTouchMove\<close> only and is 0 at first and after every
  touch, and the guard \<^verbatim>\<open>touchEndY === null\<close> never holds; so a touch at 400 that ends
  where it started is handled as a move up by 400. On the first of three slides it sets
  the index to 1.
\<close>

theorem tap_advances_index:
  "fst (handleTouchStart 400
      \<lparr>currentIndex = 0, isTransitioning = False, touchStartY = 0, touchEndY = 0\<rparr>)
   = \<lparr>currentIndex = 0, isTransitioning = False, touchStartY = 400, touchEndY = 0\<rparr>
   \<and> handleTouchEnd three_slides 800 (Some 0)
       (fst (handleTouchStart 400
          \<lparr>currentIndex = 0, isTransitioning = False, touchStartY = 0, touchEndY = 0\<rparr>))
     = Some (\<lparr>currentIndex = 1, isTransitioning = False, touchStartY = 0, touchEndY = 0\<rparr>,
             scroll_to 800 Smooth)"
  by (simp add: handleTouchEnd_def handleTouchStart_def three_slides_def remainder_def)

section \<open>Facts about the preview with arrows\<close>





section \<open>The empty list\<close>

text \<open>
  Claim C9. Over the empty list nothing is rendered: every event of the scrolling
  preview (scroll, the three touch events, any key) returns the state it was given
  and has no effect, and so does every click in the preview with arrows.
\<close>

theorem empty_list_no_navigation:
  "dispatch [] windowHeight scrollTop ev st = Some (st, no_effects) \<and> click_on [] c s = s"
  by (cases ev) (simp_all add: dispatch_def mounted_def handleKeyDown_def click_on_def)

theorem empty_list_no_navigation_witness:
  "dispatch [] 800 0 TouchEnd at_last = Some (at_last, no_effects)
   \<and> dispatch [] 800 0 Scroll at_last = Some (at_last, no_effects)
   \<and> dispatch [] 800 0 (KeyDown ''ArrowDown'') at_last = Some (at_last, no_effects)
   \<and> click_on [] NextArrow idle = idle"
  using empty_list_no_navigation [of 800 0 TouchEnd at_last NextArrow idle]
    empty_list_no_navigation [of 800 0 Scroll at_last NextArrow idle]
    empty_list_no_navigation [of 800 0 "KeyDown ''ArrowDown''" at_last NextArrow idle]
  by simp

end
